theory Spec2Isabelle
  imports Complex_Main
begin

section \<open>Numbers and nullable columns\<close>

text \<open>
  The pipeline computes on Python floats and on pandas columns of dtype float64.
  Transaction-side amounts and the fee parameters are finite floats; they are modelled
  as \<^typ>\<open>real\<close>, so rounding error and overflow of finite arithmetic are abstracted away.
  Settlement-side and derived columns are nullable: pandas stores a missing float as NaN,
  and a float division by zero inside a Series yields an infinity or NaN instead of raising.
  The type \<open>fnum\<close> keeps exactly these special values next to the finite ones.
  Signed zeros are not distinguished: the finite value \<open>0\<close> stands for \<open>+0.0\<close>.
\<close>

datatype fnum = Num real | PInf | NInf | NaN

text \<open>\<open>pd.isna\<close> / \<open>Series.notna\<close> on a float: only NaN is missing, infinities are not.\<close>

definition isna :: "fnum \<Rightarrow> bool" where
  "isna x = (x = NaN)"

definition notna :: "fnum \<Rightarrow> bool" where
  "notna x = (x \<noteq> NaN)"

text \<open>Float subtraction \<open>x - y\<close>.\<close>

fun fsub :: "fnum \<Rightarrow> fnum \<Rightarrow> fnum" where
  "fsub NaN y = NaN"
| "fsub x NaN = NaN"
| "fsub (Num a) (Num b) = Num (a - b)"
| "fsub (Num a) PInf = NInf"
| "fsub (Num a) NInf = PInf"
| "fsub PInf PInf = NaN"
| "fsub PInf y = PInf"
| "fsub NInf NInf = NaN"
| "fsub NInf y = NInf"

text \<open>
  Float division \<open>x / y\<close> as numpy performs it on float64 arrays: a finite non-zero value
  divided by zero is an infinity with the sign of the dividend, \<open>0 / 0\<close> is NaN, and
  nothing is raised.
\<close>

fun fdiv :: "fnum \<Rightarrow> fnum \<Rightarrow> fnum" where
  "fdiv NaN y = NaN"
| "fdiv x NaN = NaN"
| "fdiv (Num a) (Num b) =
     (if b = 0 then (if a = 0 then NaN else if 0 < a then PInf else NInf)
      else Num (a / b))"
| "fdiv (Num a) y = Num 0"
| "fdiv PInf (Num b) = (if 0 \<le> b then PInf else NInf)"
| "fdiv NInf (Num b) = (if 0 \<le> b then NInf else PInf)"
| "fdiv x y = NaN"

text \<open>Float multiplication \<open>x * y\<close>.\<close>

fun fmul :: "fnum \<Rightarrow> fnum \<Rightarrow> fnum" where
  "fmul NaN y = NaN"
| "fmul x NaN = NaN"
| "fmul (Num a) (Num b) = Num (a * b)"
| "fmul (Num a) PInf = (if a = 0 then NaN else if 0 < a then PInf else NInf)"
| "fmul (Num a) NInf = (if a = 0 then NaN else if 0 < a then NInf else PInf)"
| "fmul PInf (Num b) = (if b = 0 then NaN else if 0 < b then PInf else NInf)"
| "fmul NInf (Num b) = (if b = 0 then NaN else if 0 < b then NInf else PInf)"
| "fmul PInf PInf = PInf"
| "fmul PInf NInf = NInf"
| "fmul NInf PInf = NInf"
| "fmul NInf NInf = PInf"

text \<open>Python's \<open>abs\<close> on a float.\<close>

fun fabs :: "fnum \<Rightarrow> fnum" where
  "fabs (Num a) = Num \<bar>a\<bar>"
| "fabs PInf = PInf"
| "fabs NInf = PInf"
| "fabs NaN = NaN"

text \<open>The comparison \<open>x > y\<close>; every comparison with NaN is false.\<close>

fun fgt :: "fnum \<Rightarrow> fnum \<Rightarrow> bool" where
  "fgt NaN y = False"
| "fgt x NaN = False"
| "fgt (Num a) (Num b) = (b < a)"
| "fgt (Num a) PInf = False"
| "fgt (Num a) NInf = True"
| "fgt PInf PInf = False"
| "fgt PInf y = True"
| "fgt NInf y = False"

section \<open>Configuration (config.py)\<close>

text \<open>
  The fee parameters of class \<open>Config\<close> are read from the environment with the defaults
  below; the model passes them as a record, so that a statement can speak about any
  configured value as well as about the defaults.
\<close>

record config =
  CARD_FEE_PERCENT :: real
  CARD_FEE_FIXED :: real
  BANK_FEE_PERCENT :: real
  VOUCHER_FEE_PERCENT :: real

definition default_config :: config where
  "default_config =
     \<lparr> CARD_FEE_PERCENT = 29 / 10, CARD_FEE_FIXED = 30 / 100,
       BANK_FEE_PERCENT = 15 / 10, VOUCHER_FEE_PERCENT = 35 / 10 \<rparr>"

text \<open>
  \<open>Config.get_settlement_timing\<close>: a dictionary from payment method to
  (min days, max days, threshold days), read with \<open>dict.get\<close> and the default (2, 5, 7).
\<close>

definition timing :: "(string \<times> (int \<times> int \<times> int)) list" where
  "timing =
     [(''credit_card'', (2, 3, 5)),
      (''debit_card'', (2, 3, 5)),
      (''bank_transfer'', (5, 7, 10)),
      (''cash_voucher'', (3, 5, 8))]"

definition get_settlement_timing :: "string \<Rightarrow> int \<times> int \<times> int" where
  "get_settlement_timing payment_method =
     (case map_of timing payment_method of
        Some t \<Rightarrow> t
      | None \<Rightarrow> (2, 5, 7))"

section \<open>Fee model (fees.py)\<close>

text \<open>
  The fee functions are the source's arithmetic expressions over exact reals. What is
  stated about them below are identities of these expressions; how float64 rounds
  their results, and what depends on that rounding alone, is outside this model.
\<close>

definition calculate_card_fee :: "config \<Rightarrow> real \<Rightarrow> real" where
  "calculate_card_fee cfg amount = (amount * CARD_FEE_PERCENT cfg / 100) + CARD_FEE_FIXED cfg"

definition calculate_bank_fee :: "config \<Rightarrow> real \<Rightarrow> real" where
  "calculate_bank_fee cfg amount = amount * BANK_FEE_PERCENT cfg / 100"

definition calculate_voucher_fee :: "config \<Rightarrow> real \<Rightarrow> real" where
  "calculate_voucher_fee cfg amount = amount * VOUCHER_FEE_PERCENT cfg / 100"

definition calculate_fee :: "config \<Rightarrow> real \<Rightarrow> string \<Rightarrow> real" where
  "calculate_fee cfg amount payment_method =
     (if payment_method \<in> set [''credit_card'', ''debit_card''] then calculate_card_fee cfg amount
      else if payment_method = ''bank_transfer'' then calculate_bank_fee cfg amount
      else if payment_method = ''cash_voucher'' then calculate_voucher_fee cfg amount
      else calculate_card_fee cfg amount)"

definition calculate_expected_settlement :: "config \<Rightarrow> real \<Rightarrow> string \<Rightarrow> real" where
  "calculate_expected_settlement cfg amount payment_method =
     (let fee = calculate_fee cfg amount payment_method in amount - fee)"

section \<open>Data model\<close>

text \<open>
  A DataFrame is a list of rows. Every stage of the pipeline copies its input frame and
  adds columns, so every stage has its own row type, an extension of the row type of the
  stage before. Identifiers, codes and labels are strings, and the columns of the
  transaction frame are present in every row. Timestamps are
  \<open>datetime64[ns]\<close> values: integers counting nanoseconds. A missing identifier or date
  of a nullable column (NaN, NaT) is \<open>None\<close>; a missing float is \<open>NaN\<close>.
\<close>

record transaction =
  transaction_id :: string
  timestamp :: int
  amount :: real
  currency :: string
  status :: string
  payment_method :: string
  provider :: string
  country :: string
  customer_id :: string

text \<open>
  The columns of the settlement frame carry the prefix \<open>s_\<close> here, to tell them from
  the columns of the same name in the merged frame. A settlement line is read from a
  file and any of its cells that the merge copies onto a transaction may be empty: the
  settlement identifier, the settlement date and the settled amount are nullable. The
  join key \<open>transaction_id\<close> of a line is present.
\<close>

record settlement =
  s_settlement_id :: "string option"
  s_transaction_id :: string
  s_settlement_date :: "int option"
  s_settled_amount :: fnum
  s_currency :: string
  s_provider :: string

record txn_expected = transaction +
  expected_settled_amount :: real

record matched = txn_expected +
  settlement_id :: "string option"
  settlement_date :: "int option"
  settled_amount :: fnum

record discrepancies = matched +
  actual_settled_amount :: fnum
  discrepancy_amount :: fnum
  discrepancy_percent :: fnum

record timed = discrepancies +
  days_to_settle :: "int option"
  settlement_threshold :: int
  timing_anomaly :: bool

record classified = timed +
  settlement_status :: string

record reconciled = classified +
  expected_settlement_date :: int

record ghost_settlement = settlement +
  anomaly_type :: string

section \<open>Reconciliation (reconcile.py)\<close>

subsection \<open>Expected amounts\<close>

definition calculate_expected_amounts :: "config \<Rightarrow> transaction list \<Rightarrow> txn_expected list" where
  "calculate_expected_amounts cfg transactions_df =
     map (\<lambda>row. transaction.extend row
            (txn_expected.fields (calculate_expected_settlement cfg (amount row) (payment_method row))))
         transactions_df"

subsection \<open>Matcher\<close>

text \<open>
  \<open>DataFrame.merge(..., on='transaction_id', how='left')\<close>: the rows of the left frame
  in their order; a left row is paired with every right row of the same key, in the
  order of the right frame, and appears once with missing right columns when no right
  row has its key. The cells of the paired right row are copied as they are, missing
  ones included. The settlement's own \<open>provider\<close> and \<open>currency\<close> arrive as
  \<open>provider_settlement\<close> and \<open>currency_settlement\<close> and are dropped.
\<close>

definition attach :: "txn_expected \<Rightarrow> settlement \<Rightarrow> matched" where
  "attach t s = txn_expected.extend t
     (matched.fields (s_settlement_id s) (s_settlement_date s) (s_settled_amount s))"

definition unattached :: "txn_expected \<Rightarrow> matched" where
  "unattached t = txn_expected.extend t (matched.fields None None NaN)"

definition merge_left_row :: "txn_expected \<Rightarrow> settlement list \<Rightarrow> matched list" where
  "merge_left_row t settlements_df =
     (case filter (\<lambda>s. s_transaction_id s = transaction_id t) settlements_df of
        [] \<Rightarrow> [unattached t]
      | ms \<Rightarrow> map (attach t) ms)"

definition match_settlements_exact :: "txn_expected list \<Rightarrow> settlement list \<Rightarrow> matched list" where
  "match_settlements_exact transactions_df settlements_df =
     concat (map (\<lambda>t. merge_left_row t settlements_df) transactions_df)"

subsection \<open>Discrepancy calculator\<close>

text \<open>
  Both \<open>np.where\<close> calls select, row by row, the computed value where
  \<open>actual_settled_amount\<close> is present and NaN elsewhere. The early return on an empty
  frame hands back the empty frame.
\<close>

definition calculate_discrepancies_row :: "matched \<Rightarrow> discrepancies" where
  "calculate_discrepancies_row row =
     (let actual = settled_amount row;
          d_amount = (if notna actual then fsub (Num (expected_settled_amount row)) actual else NaN);
          d_percent = (if notna actual
                       then fmul (fdiv d_amount (Num (expected_settled_amount row))) (Num 100)
                       else NaN)
      in matched.extend row (discrepancies.fields actual d_amount d_percent))"

definition calculate_discrepancies :: "matched list \<Rightarrow> discrepancies list" where
  "calculate_discrepancies reconciled_df =
     (if length reconciled_df = 0 then []
      else map calculate_discrepancies_row reconciled_df)"

subsection \<open>Timing anomaly detector\<close>

definition ns_per_day :: int where
  "ns_per_day = 86400000000000"

text \<open>\<open>Timedelta.days\<close> rounds towards minus infinity, as \<open>div\<close> on \<^typ>\<open>int\<close> does.\<close>

definition get_threshold :: "string \<Rightarrow> int" where
  "get_threshold pm = (case get_settlement_timing pm of (_, _, threshold) \<Rightarrow> threshold)"

definition detect_timing_anomalies_row :: "discrepancies \<Rightarrow> timed" where
  "detect_timing_anomalies_row row =
     (let days = (case settlement_date row of
                    Some d \<Rightarrow> Some ((d - timestamp row) div ns_per_day)
                  | None \<Rightarrow> None);
          threshold = get_threshold (payment_method row);
          anomaly = (case days of Some n \<Rightarrow> n > threshold | None \<Rightarrow> False)
      in discrepancies.extend row (timed.fields days threshold anomaly))"

definition detect_timing_anomalies :: "discrepancies list \<Rightarrow> timed list" where
  "detect_timing_anomalies reconciled_df =
     (if length reconciled_df = 0 then []
      else map detect_timing_anomalies_row reconciled_df)"

subsection \<open>Status classifier\<close>

definition discrepancy_threshold_percent :: fnum where
  "discrepancy_threshold_percent = Num 1"

definition discrepancy_threshold_amount :: fnum where
  "discrepancy_threshold_amount = Num 1"

definition classify_status :: "'a discrepancies_scheme \<Rightarrow> string" where
  "classify_status row =
     (if status row \<in> set [''authorized'', ''declined''] then ''not_applicable''
      else if settlement_id row = None then
        (if status row = ''captured'' then ''missing''
         else if status row \<in> set [''refunded'', ''chargedback''] then ''missing_expected''
         else ''not_applicable'')
      else if \<not> isna (discrepancy_amount row)
              \<and> fgt (fabs (discrepancy_amount row)) discrepancy_threshold_amount
              \<and> fgt (fabs (discrepancy_percent row)) discrepancy_threshold_percent
           then ''discrepancy''
      else ''matched'')"

definition classify_settlement_status :: "timed list \<Rightarrow> classified list" where
  "classify_settlement_status reconciled_df =
     map (\<lambda>row. timed.extend row (classified.fields (classify_status row))) reconciled_df"

subsection \<open>Ghost settlement detector\<close>

text \<open>
  The identifier sets are sets of cells. \<open>matched_settlement_ids\<close> holds the present
  identifiers of the reconciled frame; \<open>all_settlement_ids\<close> holds every cell of the
  settlement frame's identifier column, the missing one included when a line has none,
  and \<open>isin\<close> finds a missing cell in a set that holds the missing value.
\<close>

definition matched_settlement_ids :: "'a matched_scheme list \<Rightarrow> string option set" where
  "matched_settlement_ids reconciled_df =
     set (filter (\<lambda>i. i \<noteq> None) (map settlement_id reconciled_df))"

definition identify_ghost_settlements ::
  "'a matched_scheme list \<Rightarrow> settlement list \<Rightarrow> ghost_settlement list" where
  "identify_ghost_settlements reconciled_df settlements_df =
     (let all_settlement_ids = set (map s_settlement_id settlements_df);
          ghost_settlement_ids = all_settlement_ids - matched_settlement_ids reconciled_df
      in map (\<lambda>s. settlement.extend s (ghost_settlement.fields ''ghost_settlement''))
             (filter (\<lambda>s. s_settlement_id s \<in> ghost_settlement_ids) settlements_df))"

subsection \<open>The engine\<close>

definition calculate_expected_settlement_date :: "'a transaction_scheme \<Rightarrow> int" where
  "calculate_expected_settlement_date row =
     (case get_settlement_timing (payment_method row) of
        (min_days, max_days, _) \<Rightarrow> timestamp row + (min_days + max_days) * ns_per_day div 2)"

definition reconcile_stages :: "config \<Rightarrow> transaction list \<Rightarrow> settlement list \<Rightarrow> classified list" where
  "reconcile_stages cfg transactions_df settlements_df =
     classify_settlement_status
       (detect_timing_anomalies
         (calculate_discrepancies
           (match_settlements_exact (calculate_expected_amounts cfg transactions_df) settlements_df)))"

text \<open>
  \<open>reconcile_transactions\<close> without its printing. On an empty transaction frame the
  merged frame is empty, \<open>calculate_discrepancies\<close> returns it as it is, without the
  discrepancy columns, and the next statement reads
  \<open>reconciled_df['discrepancy_amount']\<close>: the run ends in an exception, which is
  \<open>None\<close> here.
\<close>

definition reconcile_transactions ::
  "config \<Rightarrow> transaction list \<Rightarrow> settlement list \<Rightarrow> (reconciled list \<times> ghost_settlement list) option" where
  "reconcile_transactions cfg transactions_df settlements_df =
     (if transactions_df = [] then None
      else
        (let reconciled_df = reconcile_stages cfg transactions_df settlements_df;
             ghost_settlements = identify_ghost_settlements reconciled_df settlements_df
         in Some (map (\<lambda>row. classified.extend row
                                (reconciled.fields (calculate_expected_settlement_date row)))
                      reconciled_df,
                  ghost_settlements)))"

section \<open>The specification's decision table\<close>

text \<open>
  The status classifier as the specification words it, to be compared with
  \<open>classify_status\<close>: rules 1 to 4, evaluated top to bottom, first match wins. Rule 3
  tests the two tolerances only; it has no separate test for a missing discrepancy.
\<close>

definition decision_table :: "'a discrepancies_scheme \<Rightarrow> string" where
  "decision_table row =
     (if status row = ''authorized'' \<or> status row = ''declined'' then ''not_applicable''
      else if settlement_id row = None then
        (if status row = ''captured'' then ''missing''
         else if status row = ''refunded'' \<or> status row = ''chargedback'' then ''missing_expected''
         else ''not_applicable'')
      else if fgt (fabs (discrepancy_amount row)) (Num 1)
              \<and> fgt (fabs (discrepancy_percent row)) (Num 1)
           then ''discrepancy''
      else ''matched'')"

text \<open>
  The threshold column of the specification's table of settlement norms, to be compared
  with the third component of \<open>get_settlement_timing\<close>.
\<close>

definition spec_threshold_days :: "string \<Rightarrow> int" where
  "spec_threshold_days pm =
     (if pm = ''credit_card'' \<or> pm = ''debit_card'' then 5
      else if pm = ''bank_transfer'' then 10
      else if pm = ''cash_voucher'' then 8
      else 7)"

section \<open>Sample batches\<close>

text \<open>Concrete rows on which the statements below are evaluated.\<close>

definition txn_card :: transaction where
  "txn_card =
     \<lparr> transaction_id = ''TXN_001'', timestamp = 0, amount = 100, currency = ''BRL'',
       status = ''captured'', payment_method = ''credit_card'', provider = ''PayBridge'',
       country = ''BR'', customer_id = ''CUST_001'' \<rparr>"

definition txn_bank_zero :: transaction where
  "txn_bank_zero =
     \<lparr> transaction_id = ''TXN_002'', timestamp = 0, amount = 0, currency = ''MXN'',
       status = ''captured'', payment_method = ''bank_transfer'', provider = ''LatamPay'',
       country = ''MX'', customer_id = ''CUST_002'' \<rparr>"

definition txn_authorized :: transaction where
  "txn_authorized =
     \<lparr> transaction_id = ''TXN_003'', timestamp = 0, amount = 50, currency = ''COP'',
       status = ''authorized'', payment_method = ''cash_voucher'', provider = ''PayBridge'',
       country = ''CO'', customer_id = ''CUST_003'' \<rparr>"

definition set_card :: settlement where
  "set_card =
     \<lparr> s_settlement_id = Some ''SET_001'', s_transaction_id = ''TXN_001'',
       s_settlement_date = Some (7 * ns_per_day), s_settled_amount = Num (968 / 10),
       s_currency = ''BRL'', s_provider = ''PayBridge'' \<rparr>"

definition set_card_no_amount :: settlement where
  "set_card_no_amount =
     \<lparr> s_settlement_id = Some ''SET_002'', s_transaction_id = ''TXN_001'',
       s_settlement_date = Some (2 * ns_per_day), s_settled_amount = NaN,
       s_currency = ''BRL'', s_provider = ''PayBridge'' \<rparr>"

definition set_card_no_id :: settlement where
  "set_card_no_id =
     \<lparr> s_settlement_id = None, s_transaction_id = ''TXN_001'',
       s_settlement_date = Some (2 * ns_per_day), s_settled_amount = Num (968 / 10),
       s_currency = ''BRL'', s_provider = ''PayBridge'' \<rparr>"

definition set_bank_zero :: settlement where
  "set_bank_zero =
     \<lparr> s_settlement_id = Some ''SET_003'', s_transaction_id = ''TXN_002'',
       s_settlement_date = Some (6 * ns_per_day), s_settled_amount = Num 5,
       s_currency = ''MXN'', s_provider = ''LatamPay'' \<rparr>"

definition set_ghost :: settlement where
  "set_ghost =
     \<lparr> s_settlement_id = Some ''SET_999'', s_transaction_id = ''TXN_999'',
       s_settlement_date = Some (3 * ns_per_day), s_settled_amount = Num 100,
       s_currency = ''BRL'', s_provider = ''PayBridge'' \<rparr>"

definition row_card :: matched where
  "row_card =
     attach (transaction.extend txn_card (txn_expected.fields
               (calculate_expected_settlement default_config (amount txn_card)
                  (payment_method txn_card))))
       set_card"

definition row_bank_zero :: matched where
  "row_bank_zero =
     attach (transaction.extend txn_bank_zero (txn_expected.fields
               (calculate_expected_settlement default_config (amount txn_bank_zero)
                  (payment_method txn_bank_zero))))
       set_bank_zero"

definition row_card_no_amount :: matched where
  "row_card_no_amount =
     attach (transaction.extend txn_card (txn_expected.fields
               (calculate_expected_settlement default_config (amount txn_card)
                  (payment_method txn_card))))
       set_card_no_amount"

definition sample_transactions :: "transaction list" where
  "sample_transactions = [txn_card, txn_bank_zero, txn_authorized]"

definition sample_settlements :: "settlement list" where
  "sample_settlements = [set_card, set_bank_zero, set_ghost]"

definition sample_matched :: "matched list" where
  "sample_matched =
     match_settlements_exact (calculate_expected_amounts default_config sample_transactions)
       sample_settlements"

definition sample_reconciled :: "reconciled list" where
  "sample_reconciled =
     (case reconcile_transactions default_config sample_transactions sample_settlements of
        Some (reconciled_df, ghost_settlements) \<Rightarrow> reconciled_df
      | None \<Rightarrow> [])"

definition sample_ghosts :: "ghost_settlement list" where
  "sample_ghosts =
     (case reconcile_transactions default_config sample_transactions sample_settlements of
        Some (reconciled_df, ghost_settlements) \<Rightarrow> ghost_settlements
      | None \<Rightarrow> [])"

text \<open>
  Two batches with one incomplete settlement line each: one without a settled amount,
  one without a settlement identifier.
\<close>

definition reconciled_no_amount :: "reconciled list" where
  "reconciled_no_amount =
     (case reconcile_transactions default_config [txn_card] [set_card_no_amount] of
        Some (reconciled_df, ghost_settlements) \<Rightarrow> reconciled_df
      | None \<Rightarrow> [])"

definition reconciled_no_id :: "reconciled list" where
  "reconciled_no_id =
     (case reconcile_transactions default_config [txn_card] [set_card_no_id] of
        Some (reconciled_df, ghost_settlements) \<Rightarrow> reconciled_df
      | None \<Rightarrow> [])"

section \<open>Row constructors and selectors\<close>

lemmas row_defs =
  transaction.defs txn_expected.defs matched.defs discrepancies.defs timed.defs
  classified.defs reconciled.defs settlement.defs ghost_settlement.defs

section \<open>Status classifier\<close>

lemma fgt_fabs_notna: "fgt (fabs x) y \<Longrightarrow> \<not> isna x"
  by (cases x) (simp_all add: isna_def)

lemma classify_status_table: "classify_status row = decision_table row"
  unfolding classify_status_def decision_table_def
    discrepancy_threshold_amount_def discrepancy_threshold_percent_def
  using fgt_fabs_notna [of "discrepancy_amount row" "Num 1"]
  by auto

text \<open>
  C1. \<open>classify_settlement_status\<close> gives every row the status of the ordered decision
  table, first match winning: \<open>not_applicable\<close> for an authorized or declined
  transaction, also when a settlement is attached; otherwise, without a settlement,
  \<open>missing\<close> for a captured transaction, \<open>missing_expected\<close> for a refunded or charged
  back one and \<open>not_applicable\<close> for any other; otherwise \<open>discrepancy\<close> when both
  the absolute discrepancy amount and the absolute discrepancy percentage exceed 1.0, and
  \<open>matched\<close> in every remaining case. The explicit test of the code for a missing
  discrepancy amount changes nothing, since no comparison with NaN holds.
\<close>

theorem classify_settlement_status_decision_table:
  "classify_settlement_status reconciled_df =
     map (\<lambda>row. timed.extend row (classified.fields (decision_table row))) reconciled_df"
  by (simp add: classify_settlement_status_def classify_status_table)

theorem classify_settlement_status_decision_table_witness:
  "map settlement_status
     (classify_settlement_status (detect_timing_anomalies (calculate_discrepancies sample_matched)))
   = [''matched'', ''discrepancy'', ''not_applicable'']"
proof -
  have "map settlement_status
      (map (\<lambda>row. timed.extend row (classified.fields (decision_table row)))
        (detect_timing_anomalies (calculate_discrepancies sample_matched)))
    = [''matched'', ''discrepancy'', ''not_applicable'']"
    by code_simp
  then show ?thesis
    by (simp only: classify_settlement_status_decision_table)
qed

section \<open>Matcher\<close>

lemma filter_key_distinct:
  "distinct (map f xs) \<Longrightarrow> length (filter (\<lambda>x. f x = k) xs) \<le> 1"
proof (induction xs)
  case Nil
  then show ?case by simp
next
  case (Cons x xs)
  show ?case
  proof (cases "f x = k")
    case True
    from Cons.prems True have "k \<notin> f ` set xs" by auto
    then have "filter (\<lambda>y. f y = k) xs = []"
      by (force simp: filter_empty_conv)
    with True show ?thesis by simp
  next
    case False
    with Cons show ?thesis by simp
  qed
qed

lemma attach_truncate: "txn_expected.truncate (attach t s) = t"
  by (simp add: attach_def row_defs)

lemma unattached_truncate: "txn_expected.truncate (unattached t) = t"
  by (simp add: unattached_def row_defs)

lemma unattached_fields:
  "settlement_id (unattached t) = None" "settlement_date (unattached t) = None"
  "settled_amount (unattached t) = NaN"
  by (simp_all add: unattached_def row_defs)

lemma attach_fields:
  "settlement_id (attach t s) = s_settlement_id s"
  "settlement_date (attach t s) = s_settlement_date s"
  "settled_amount (attach t s) = s_settled_amount s"
  by (simp_all add: attach_def row_defs)

lemma merge_left_row_unmatched:
  "transaction_id t \<notin> set (map s_transaction_id ss) \<Longrightarrow> merge_left_row t ss = [unattached t]"
proof -
  assume "transaction_id t \<notin> set (map s_transaction_id ss)"
  then have "filter (\<lambda>s. s_transaction_id s = transaction_id t) ss = []"
    by (force simp: filter_empty_conv)
  then show ?thesis by (simp add: merge_left_row_def)
qed

lemma merge_left_row_single:
  assumes "distinct (map s_transaction_id ss)"
  shows "\<exists>r. merge_left_row t ss = [r] \<and> txn_expected.truncate r = t"
proof -
  let ?ms = "filter (\<lambda>s. s_transaction_id s = transaction_id t) ss"
  have len: "length ?ms \<le> 1" using assms by (rule filter_key_distinct)
  show ?thesis
  proof (cases ?ms)
    case Nil
    then show ?thesis by (simp add: merge_left_row_def unattached_truncate)
  next
    case (Cons a as)
    with len have "as = []" by simp
    with Cons show ?thesis by (simp add: merge_left_row_def attach_truncate)
  qed
qed

lemma match_truncate:
  assumes "distinct (map s_transaction_id ss)"
  shows "map txn_expected.truncate (match_settlements_exact ts ss) = ts"
proof (induction ts)
  case Nil
  then show ?case by (simp add: match_settlements_exact_def)
next
  case (Cons t ts)
  obtain r where "merge_left_row t ss = [r]" "txn_expected.truncate r = t"
    using merge_left_row_single [OF assms] by blast
  with Cons show ?case by (simp add: match_settlements_exact_def)
qed

lemma match_nth:
  assumes "distinct (map s_transaction_id ss)" and "i < length ts"
  shows "merge_left_row (ts ! i) ss = [match_settlements_exact ts ss ! i]"
  using assms(2)
proof (induction ts arbitrary: i)
  case Nil
  then show ?case by simp
next
  case (Cons t ts)
  obtain r where r: "merge_left_row t ss = [r]"
    using merge_left_row_single [OF assms(1)] by blast
  show ?case
  proof (cases i)
    case 0
    with r show ?thesis by (simp add: match_settlements_exact_def)
  next
    case (Suc j)
    with Cons.prems have "j < length ts" by simp
    from Cons.IH [OF this] Suc r show ?thesis
      by (simp add: match_settlements_exact_def)
  qed
qed

lemma truncate_transaction_id: "transaction_id (txn_expected.truncate r) = transaction_id r"
  by (simp add: row_defs)

text \<open>
  C2. When no two settlements reference the same transaction identifier, the matcher
  returns exactly one row per input transaction, in the order of the input: the rows
  cut back to the transaction's columns are the input frame itself, so each row carries
  its transaction's identifier, and the settlement columns (identifier, date, settled
  amount) of a row are missing when no settlement references its transaction.
\<close>

theorem match_settlements_exact_one_per_transaction:
  assumes "distinct (map s_transaction_id settlements_df)"
  shows "length (match_settlements_exact transactions_df settlements_df) = length transactions_df
    \<and> map txn_expected.truncate (match_settlements_exact transactions_df settlements_df)
        = transactions_df
    \<and> map transaction_id (match_settlements_exact transactions_df settlements_df)
        = map transaction_id transactions_df
    \<and> (\<forall>i < length transactions_df.
          transaction_id (transactions_df ! i) \<notin> set (map s_transaction_id settlements_df) \<longrightarrow>
            settlement_id (match_settlements_exact transactions_df settlements_df ! i) = None
          \<and> settlement_date (match_settlements_exact transactions_df settlements_df ! i) = None
          \<and> isna (settled_amount (match_settlements_exact transactions_df settlements_df ! i)))"
proof -
  let ?out = "match_settlements_exact transactions_df settlements_df"
  have tr: "map txn_expected.truncate ?out = transactions_df"
    using assms by (rule match_truncate)
  then have len: "length ?out = length transactions_df"
    by (metis length_map)
  have "map transaction_id (map txn_expected.truncate ?out) = map transaction_id ?out"
    by (simp add: truncate_transaction_id)
  with tr have ids: "map transaction_id ?out = map transaction_id transactions_df"
    by simp
  have nulls: "settlement_id (?out ! i) = None \<and> settlement_date (?out ! i) = None
      \<and> isna (settled_amount (?out ! i))"
    if "i < length transactions_df"
      and "transaction_id (transactions_df ! i) \<notin> set (map s_transaction_id settlements_df)" for i
  proof -
    have "merge_left_row (transactions_df ! i) settlements_df = [?out ! i]"
      using assms that(1) by (rule match_nth)
    moreover have "merge_left_row (transactions_df ! i) settlements_df
        = [unattached (transactions_df ! i)]"
      using that(2) by (rule merge_left_row_unmatched)
    ultimately have "?out ! i = unattached (transactions_df ! i)" by simp
    then show ?thesis by (simp add: unattached_fields isna_def)
  qed
  from len tr ids nulls show ?thesis by blast
qed

theorem match_settlements_exact_one_per_transaction_witness:
  "distinct (map s_transaction_id sample_settlements)
   \<and> map transaction_id sample_matched = [''TXN_001'', ''TXN_002'', ''TXN_003'']
   \<and> ''TXN_003'' \<notin> set (map s_transaction_id sample_settlements)
   \<and> settlement_id (sample_matched ! 2) = None
   \<and> settlement_date (sample_matched ! 2) = None
   \<and> isna (settled_amount (sample_matched ! 2))"
proof -
  let ?ts = "calculate_expected_amounts default_config sample_transactions"
  have h: "distinct (map s_transaction_id sample_settlements)"
    by code_simp
  note T = match_settlements_exact_one_per_transaction [OF h, of ?ts]
  have ids: "map transaction_id ?ts = [''TXN_001'', ''TXN_002'', ''TXN_003'']"
    by code_simp
  have l: "2 < length ?ts"
    by code_simp
  have k: "transaction_id (?ts ! 2) = ''TXN_003''"
    by code_simp
  have u: "''TXN_003'' \<notin> set (map s_transaction_id sample_settlements)"
    by code_simp
  from T l k u have n: "settlement_id (match_settlements_exact ?ts sample_settlements ! 2) = None
      \<and> settlement_date (match_settlements_exact ?ts sample_settlements ! 2) = None
      \<and> isna (settled_amount (match_settlements_exact ?ts sample_settlements ! 2))"
    by metis
  from T ids have "map transaction_id (match_settlements_exact ?ts sample_settlements)
      = [''TXN_001'', ''TXN_002'', ''TXN_003'']"
    by metis
  with h u n show ?thesis
    unfolding sample_matched_def by blast
qed

section \<open>Ghost settlement detector\<close>

lemma calculate_discrepancies_map:
  "calculate_discrepancies df = map calculate_discrepancies_row df"
  by (cases df) (simp_all add: calculate_discrepancies_def)

lemma detect_timing_anomalies_map:
  "detect_timing_anomalies df = map detect_timing_anomalies_row df"
  by (cases df) (simp_all add: detect_timing_anomalies_def)

lemma stage_settlement_id:
  "settlement_id (calculate_discrepancies_row r) = settlement_id r"
  "settlement_id (detect_timing_anomalies_row d) = settlement_id d"
  "settlement_id (timed.extend t (classified.fields c)) = settlement_id t"
  by (simp_all add: calculate_discrepancies_row_def detect_timing_anomalies_row_def Let_def row_defs)

lemma reconcile_stages_settlement_id:
  "map settlement_id (reconcile_stages cfg ts ss)
   = map settlement_id (match_settlements_exact (calculate_expected_amounts cfg ts) ss)"
  by (simp add: reconcile_stages_def classify_settlement_status_def
      calculate_discrepancies_map detect_timing_anomalies_map stage_settlement_id comp_def)

lemma merge_left_row_ids:
  "set (map settlement_id (merge_left_row t ss)) \<subseteq> insert None (s_settlement_id ` set ss)"
proof (cases "filter (\<lambda>s. s_transaction_id s = transaction_id t) ss")
  case Nil
  then show ?thesis by (simp add: merge_left_row_def unattached_fields)
next
  case (Cons a as)
  then have "merge_left_row t ss
      = map (attach t) (filter (\<lambda>s. s_transaction_id s = transaction_id t) ss)"
    by (simp add: merge_left_row_def)
  then have "set (map settlement_id (merge_left_row t ss))
      = s_settlement_id ` set (filter (\<lambda>s. s_transaction_id s = transaction_id t) ss)"
    by (simp add: attach_fields comp_def)
  then show ?thesis by auto
qed

lemma match_ids:
  "set (map settlement_id (match_settlements_exact ts ss))
   \<subseteq> insert None (s_settlement_id ` set ss)"
proof (induction ts)
  case Nil
  then show ?case by (simp add: match_settlements_exact_def)
next
  case (Cons t ts)
  have "set (map settlement_id (match_settlements_exact (t # ts) ss))
      = set (map settlement_id (merge_left_row t ss))
        \<union> set (map settlement_id (match_settlements_exact ts ss))"
    by (simp add: match_settlements_exact_def)
  with Cons merge_left_row_ids [of t ss] show ?case by blast
qed

lemma matched_settlement_ids_iff:
  "x \<in> matched_settlement_ids df \<longleftrightarrow> x \<noteq> None \<and> x \<in> set (map settlement_id df)"
  unfolding matched_settlement_ids_def by auto

lemma ghost_row_fields:
  "s_settlement_id (settlement.extend s (ghost_settlement.fields a)) = s_settlement_id s"
  "anomaly_type (settlement.extend s (ghost_settlement.fields a)) = a"
  by (simp_all add: settlement.defs ghost_settlement.defs)

lemma ghost_ids:
  "set (map s_settlement_id (identify_ghost_settlements df ss))
   = set (map s_settlement_id ss) - matched_settlement_ids df"
proof -
  let ?G = "set (map s_settlement_id ss) - matched_settlement_ids df"
  have "map s_settlement_id (identify_ghost_settlements df ss)
      = map s_settlement_id (filter (\<lambda>s. s_settlement_id s \<in> ?G) ss)"
    by (simp add: identify_ghost_settlements_def Let_def ghost_row_fields comp_def)
  then show ?thesis by auto
qed

lemma ghost_tags:
  "g \<in> set (identify_ghost_settlements df ss) \<Longrightarrow> anomaly_type g = ''ghost_settlement''"
proof -
  assume "g \<in> set (identify_ghost_settlements df ss)"
  then obtain s where "g = settlement.extend s (ghost_settlement.fields ''ghost_settlement'')"
    unfolding identify_ghost_settlements_def Let_def by auto
  then show ?thesis by (simp only: ghost_row_fields)
qed

lemma matched_subset_all:
  "matched_settlement_ids (reconcile_stages cfg ts ss) \<subseteq> set (map s_settlement_id ss)"
proof
  fix x
  assume "x \<in> matched_settlement_ids (reconcile_stages cfg ts ss)"
  then have n: "x \<noteq> None" and "x \<in> set (map settlement_id (reconcile_stages cfg ts ss))"
    by (simp_all add: matched_settlement_ids_iff)
  then have "x \<in> set (map settlement_id
      (match_settlements_exact (calculate_expected_amounts cfg ts) ss))"
    by (simp only: reconcile_stages_settlement_id)
  with match_ids [of "calculate_expected_amounts cfg ts" ss] n
  show "x \<in> set (map s_settlement_id ss)" by auto
qed

text \<open>
  C3. For every batch, the settlement identifiers attached to a reconciled row and the
  settlement identifiers of the rows reported by \<open>identify_ghost_settlements\<close> are
  disjoint, together they are exactly the settlement identifiers of the input settlement
  frame, and every reported row carries the anomaly type \<open>ghost_settlement\<close>. The
  sets are sets of cells of the identifier columns: a settlement line without an
  identifier counts with the missing cell, which is never a matched identifier.
\<close>

theorem ghost_settlements_partition:
  "matched_settlement_ids (reconcile_stages cfg transactions_df settlements_df)
     \<inter> set (map s_settlement_id
          (identify_ghost_settlements (reconcile_stages cfg transactions_df settlements_df)
             settlements_df)) = {}
   \<and> matched_settlement_ids (reconcile_stages cfg transactions_df settlements_df)
     \<union> set (map s_settlement_id
          (identify_ghost_settlements (reconcile_stages cfg transactions_df settlements_df)
             settlements_df)) = set (map s_settlement_id settlements_df)
   \<and> (\<forall>g \<in> set (identify_ghost_settlements
                    (reconcile_stages cfg transactions_df settlements_df) settlements_df).
         anomaly_type g = ''ghost_settlement'')"
proof -
  let ?r = "reconcile_stages cfg transactions_df settlements_df"
  have sub: "matched_settlement_ids ?r \<subseteq> set (map s_settlement_id settlements_df)"
    by (rule matched_subset_all)
  have g: "set (map s_settlement_id (identify_ghost_settlements ?r settlements_df))
      = set (map s_settlement_id settlements_df) - matched_settlement_ids ?r"
    by (rule ghost_ids)
  have t: "\<forall>g \<in> set (identify_ghost_settlements ?r settlements_df).
      anomaly_type g = ''ghost_settlement''"
    using ghost_tags by blast
  from sub g t show ?thesis by blast
qed



theorem ghost_settlements_partition_witness:
  "matched_settlement_ids (reconcile_stages default_config sample_transactions sample_settlements)
     = {Some ''SET_001'', Some ''SET_003''}
   \<and> set (map s_settlement_id
          (identify_ghost_settlements
             (reconcile_stages default_config sample_transactions sample_settlements)
             sample_settlements)) = {Some ''SET_999''}
   \<and> set (map s_settlement_id sample_settlements) = {Some ''SET_001'', Some ''SET_003'', Some ''SET_999''}
   \<and> map anomaly_type
         (identify_ghost_settlements
            (reconcile_stages default_config sample_transactions sample_settlements)
            sample_settlements) = [''ghost_settlement'']"
proof -
  let ?r = "reconcile_stages default_config sample_transactions sample_settlements"
  let ?g = "identify_ghost_settlements ?r sample_settlements"
  note T = ghost_settlements_partition [of default_config sample_transactions sample_settlements]
  have m: "matched_settlement_ids ?r = {Some ''SET_001'', Some ''SET_003''}"
    by code_simp
  have a: "set (map s_settlement_id sample_settlements) = {Some ''SET_001'', Some ''SET_003'', Some ''SET_999''}"
    by code_simp
  have n: "map s_settlement_id ?g = [Some ''SET_999'']"
    by code_simp
  then obtain g where g: "?g = [g]"
    by (cases ?g) auto
  with T have "anomaly_type g = ''ghost_settlement''" by simp
  with g have t: "map anomaly_type ?g = [''ghost_settlement'']" by simp
  from n have "set (map s_settlement_id ?g) = {Some ''SET_999''}" by simp
  with m a t show ?thesis by blast
qed

section \<open>Discrepancy calculator\<close>

lemma calculate_discrepancies_row_fields:
  "actual_settled_amount (calculate_discrepancies_row r) = settled_amount r"
  "discrepancy_amount (calculate_discrepancies_row r)
     = (if notna (settled_amount r) then fsub (Num (expected_settled_amount r)) (settled_amount r)
        else NaN)"
  "discrepancy_percent (calculate_discrepancies_row r)
     = (if notna (settled_amount r)
        then fmul (fdiv (discrepancy_amount (calculate_discrepancies_row r))
                     (Num (expected_settled_amount r))) (Num 100)
        else NaN)"
  by (simp_all add: calculate_discrepancies_row_def Let_def matched.defs discrepancies.defs)

lemma calculate_discrepancies_row_keeps_fields:
  "status (calculate_discrepancies_row r) = status r"
  "settled_amount (calculate_discrepancies_row r) = settled_amount r"
  "expected_settled_amount (calculate_discrepancies_row r) = expected_settled_amount r"
  by (simp_all add: calculate_discrepancies_row_def Let_def matched.defs discrepancies.defs)

lemma detect_timing_anomalies_row_keeps_fields:
  "status (detect_timing_anomalies_row d) = status d"
  "settled_amount (detect_timing_anomalies_row d) = settled_amount d"
  "expected_settled_amount (detect_timing_anomalies_row d) = expected_settled_amount d"
  "discrepancy_amount (detect_timing_anomalies_row d) = discrepancy_amount d"
  "discrepancy_percent (detect_timing_anomalies_row d) = discrepancy_percent d"
  by (simp_all add: detect_timing_anomalies_row_def Let_def discrepancies.defs timed.defs)

lemma classified_row_fields:
  "settlement_status (timed.extend t (classified.fields c)) = c"
  "status (timed.extend t (classified.fields c)) = status t"
  "settled_amount (timed.extend t (classified.fields c)) = settled_amount t"
  "expected_settled_amount (timed.extend t (classified.fields c)) = expected_settled_amount t"
  "discrepancy_amount (timed.extend t (classified.fields c)) = discrepancy_amount t"
  "discrepancy_percent (timed.extend t (classified.fields c)) = discrepancy_percent t"
  by (simp_all add: timed.defs classified.defs)

lemma fsub_Num_isna: "isna (fsub (Num e) x) \<longleftrightarrow> isna x"
  by (cases x) (simp_all add: isna_def)

text \<open>
  C4. For every row with a settled amount that is not missing, \<open>calculate_discrepancies\<close>
  sets \<open>discrepancy_amount\<close> to the expected settled amount minus the actual settled
  amount and \<open>discrepancy_percent\<close> to the discrepancy amount divided by the expected
  settled amount, times 100, with no rounding: for finite values these are the exact
  difference and, for a non-zero expected amount, the exact quotient. For every row
  without a settled amount, and so for every row the matcher left without a settlement,
  both columns are missing.
\<close>

theorem calculate_discrepancies_formula:
  "calculate_discrepancies reconciled_df = map calculate_discrepancies_row reconciled_df
   \<and> (notna (settled_amount row) \<longrightarrow>
         discrepancy_amount (calculate_discrepancies_row row)
           = fsub (Num (expected_settled_amount row)) (settled_amount row)
       \<and> discrepancy_percent (calculate_discrepancies_row row)
           = fmul (fdiv (discrepancy_amount (calculate_discrepancies_row row))
                     (Num (expected_settled_amount row))) (Num 100))
   \<and> (\<forall>a. settled_amount row = Num a \<longrightarrow>
         discrepancy_amount (calculate_discrepancies_row row)
           = Num (expected_settled_amount row - a)
       \<and> (expected_settled_amount row \<noteq> 0 \<longrightarrow>
            discrepancy_percent (calculate_discrepancies_row row)
              = Num ((expected_settled_amount row - a) / expected_settled_amount row * 100)))
   \<and> (isna (settled_amount row) \<longrightarrow>
         isna (discrepancy_amount (calculate_discrepancies_row row))
       \<and> isna (discrepancy_percent (calculate_discrepancies_row row)))
   \<and> isna (discrepancy_amount (calculate_discrepancies_row (unattached t)))
   \<and> isna (discrepancy_percent (calculate_discrepancies_row (unattached t)))"
proof -
  have f: "calculate_discrepancies reconciled_df = map calculate_discrepancies_row reconciled_df"
    by (rule calculate_discrepancies_map)
  have p: "notna (settled_amount row) \<longrightarrow>
         discrepancy_amount (calculate_discrepancies_row row)
           = fsub (Num (expected_settled_amount row)) (settled_amount row)
       \<and> discrepancy_percent (calculate_discrepancies_row row)
           = fmul (fdiv (discrepancy_amount (calculate_discrepancies_row row))
                     (Num (expected_settled_amount row))) (Num 100)"
    by (simp add: calculate_discrepancies_row_fields)
  have q: "discrepancy_amount (calculate_discrepancies_row row)
           = Num (expected_settled_amount row - a)
       \<and> (expected_settled_amount row \<noteq> 0 \<longrightarrow>
            discrepancy_percent (calculate_discrepancies_row row)
              = Num ((expected_settled_amount row - a) / expected_settled_amount row * 100))"
    if "settled_amount row = Num a" for a
    using that by (simp add: calculate_discrepancies_row_fields notna_def)
  have n: "isna (settled_amount row) \<longrightarrow>
         isna (discrepancy_amount (calculate_discrepancies_row row))
       \<and> isna (discrepancy_percent (calculate_discrepancies_row row))"
    by (simp add: calculate_discrepancies_row_fields notna_def isna_def)
  have u: "isna (discrepancy_amount (calculate_discrepancies_row (unattached t)))
       \<and> isna (discrepancy_percent (calculate_discrepancies_row (unattached t)))"
    by (simp add: calculate_discrepancies_row_fields unattached_fields notna_def isna_def)
  from f p q n u show ?thesis by blast
qed

theorem calculate_discrepancies_formula_witness:
  "settled_amount row_card = Num (968 / 10)
   \<and> expected_settled_amount row_card = 968 / 10
   \<and> discrepancy_amount (calculate_discrepancies_row row_card) = Num 0
   \<and> discrepancy_percent (calculate_discrepancies_row row_card) = Num 0
   \<and> isna (settled_amount row_card_no_amount)
   \<and> isna (discrepancy_amount (calculate_discrepancies_row row_card_no_amount))
   \<and> isna (discrepancy_percent (calculate_discrepancies_row row_card_no_amount))"
proof -
  have s: "settled_amount row_card = Num (968 / 10)"
    by code_simp
  have e: "expected_settled_amount row_card = 968 / 10"
    by code_simp
  have m: "isna (settled_amount row_card_no_amount)"
    by code_simp
  from calculate_discrepancies_formula [of "[]" row_card] s e
  have "discrepancy_amount (calculate_discrepancies_row row_card) = Num 0
      \<and> discrepancy_percent (calculate_discrepancies_row row_card) = Num 0"
    by simp
  moreover from calculate_discrepancies_formula [of "[]" row_card_no_amount] m
  have "isna (discrepancy_amount (calculate_discrepancies_row row_card_no_amount))
      \<and> isna (discrepancy_percent (calculate_discrepancies_row row_card_no_amount))"
    by blast
  ultimately show ?thesis using s e m by blast
qed

text \<open>
  C5, as stated, fails: a row with an expected settled amount of zero and a settled
  amount of 5 gets the discrepancy percentage minus infinity, which is not missing.
\<close>

theorem zero_expected_percent_counterexample:
  "\<not> (expected_settled_amount row_bank_zero = 0 \<and> notna (settled_amount row_bank_zero)
       \<longrightarrow> isna (discrepancy_percent (calculate_discrepancies_row row_bank_zero)))"
  by code_simp

text \<open>
  C5, amended. For every row whose expected settled amount is zero and whose settled
  amount is not missing, \<open>calculate_discrepancies\<close> raises nothing and the discrepancy
  percentage is the float quotient: missing only when the settled amount is zero as
  well, minus infinity when the settled amount is positive, plus infinity when it is
  negative.
\<close>

theorem zero_expected_percent:
  assumes "expected_settled_amount row = 0" and "notna (settled_amount row)"
  shows "discrepancy_percent (calculate_discrepancies_row row)
     = (case settled_amount row of
          Num a \<Rightarrow> (if a = 0 then NaN else if 0 < a then NInf else PInf)
        | PInf \<Rightarrow> NInf
        | NInf \<Rightarrow> PInf
        | NaN \<Rightarrow> NaN)"
  using assms
  by (cases "settled_amount row") (simp_all add: calculate_discrepancies_row_fields notna_def)

theorem zero_expected_percent_witness:
  "expected_settled_amount row_bank_zero = 0 \<and> settled_amount row_bank_zero = Num 5
   \<and> discrepancy_percent (calculate_discrepancies_row row_bank_zero) = NInf"
proof -
  have e: "expected_settled_amount row_bank_zero = 0"
    by code_simp
  have s: "settled_amount row_bank_zero = Num 5"
    by code_simp
  then have n: "notna (settled_amount row_bank_zero)"
    by (simp add: notna_def)
  from zero_expected_percent [OF e n] s
  have "discrepancy_percent (calculate_discrepancies_row row_bank_zero) = NInf"
    by simp
  with e s show ?thesis by blast
qed

section \<open>Rows with a settlement but no settled amount\<close>

lemma classify_status_detect_timing:
  "classify_status (detect_timing_anomalies_row d) = classify_status d"
  by (simp add: classify_status_def detect_timing_anomalies_row_keeps_fields stage_settlement_id)

lemma classify_status_null_discrepancy:
  assumes "status d \<in> set [''captured'', ''refunded'', ''chargedback'']"
    and "settlement_id d \<noteq> None" and "isna (discrepancy_amount d)"
  shows "classify_status d = ''matched''"
  using assms by (auto simp add: classify_status_def)

text \<open>
  C10. A row of a captured, refunded or charged back transaction to which a settlement
  is attached (its settlement identifier is present) but whose settled amount is missing
  gets a missing discrepancy amount and is classified \<open>matched\<close>: the tolerance test
  is skipped, and the row is classified neither \<open>discrepancy\<close> nor \<open>missing\<close>.
\<close>

theorem null_settled_amount_classified_matched:
  assumes "status row \<in> set [''captured'', ''refunded'', ''chargedback'']"
    and "settlement_id row \<noteq> None"
    and "isna (settled_amount row)"
  shows "isna (discrepancy_amount (calculate_discrepancies_row row))
    \<and> classify_status (calculate_discrepancies_row row) = ''matched''
    \<and> map settlement_status
         (classify_settlement_status (detect_timing_anomalies (calculate_discrepancies [row])))
       = [''matched'']"
proof -
  let ?d = "calculate_discrepancies_row row"
  have n: "isna (discrepancy_amount ?d)"
    using assms(3) by (simp add: calculate_discrepancies_row_fields notna_def isna_def)
  have "status ?d \<in> set [''captured'', ''refunded'', ''chargedback'']"
    using assms(1) by (simp add: calculate_discrepancies_row_keeps_fields)
  moreover have "settlement_id ?d \<noteq> None"
    using assms(2) by (simp add: stage_settlement_id)
  ultimately have c: "classify_status ?d = ''matched''"
    using n by (rule classify_status_null_discrepancy)
  have "map settlement_status
         (classify_settlement_status (detect_timing_anomalies (calculate_discrepancies [row])))
       = [classify_status (detect_timing_anomalies_row ?d)]"
    by (simp add: classify_settlement_status_def detect_timing_anomalies_def
        calculate_discrepancies_def classified_row_fields)
  with c have "map settlement_status
         (classify_settlement_status (detect_timing_anomalies (calculate_discrepancies [row])))
       = [''matched'']"
    by (simp only: classify_status_detect_timing)
  with n c show ?thesis by blast
qed

theorem null_settled_amount_classified_matched_witness:
  "status row_card_no_amount = ''captured''
   \<and> settlement_id row_card_no_amount = Some ''SET_002''
   \<and> isna (settled_amount row_card_no_amount)
   \<and> classify_status (calculate_discrepancies_row row_card_no_amount) = ''matched''
   \<and> map settlement_status
        (classify_settlement_status
           (detect_timing_anomalies (calculate_discrepancies [row_card_no_amount])))
      = [''matched'']"
proof -
  have s: "status row_card_no_amount = ''captured''"
    by code_simp
  have i: "settlement_id row_card_no_amount = Some ''SET_002''"
    by code_simp
  have a: "isna (settled_amount row_card_no_amount)"
    by code_simp
  from s have s': "status row_card_no_amount \<in> set [''captured'', ''refunded'', ''chargedback'']"
    by simp
  from i have i': "settlement_id row_card_no_amount \<noteq> None"
    by simp
  from null_settled_amount_classified_matched [OF s' i' a] s i a
  show ?thesis by blast
qed

section \<open>Presence of the discrepancy columns in the engine's output\<close>

lemma merge_left_row_origin:
  assumes "m \<in> set (merge_left_row t ss)"
  shows "m = unattached t \<or> (\<exists>s \<in> set ss. m = attach t s)"
proof (cases "filter (\<lambda>s. s_transaction_id s = transaction_id t) ss")
  case Nil
  with assms show ?thesis by (simp add: merge_left_row_def)
next
  case (Cons a as)
  with assms have "m \<in> attach t ` set (filter (\<lambda>s. s_transaction_id s = transaction_id t) ss)"
    by (simp add: merge_left_row_def)
  then show ?thesis by auto
qed

lemma match_rows_origin:
  assumes "m \<in> set (match_settlements_exact ts ss)"
  shows "\<exists>t. m = unattached t \<or> (\<exists>s \<in> set ss. m = attach t s)"
proof -
  from assms obtain t where "m \<in> set (merge_left_row t ss)"
    by (auto simp: match_settlements_exact_def)
  then show ?thesis using merge_left_row_origin by blast
qed

lemma match_rows_complete:
  assumes "m \<in> set (match_settlements_exact ts ss)"
    and "\<forall>s \<in> set ss. s_settlement_id s \<noteq> None \<longleftrightarrow> notna (s_settled_amount s)"
  shows "settlement_id m \<noteq> None \<longleftrightarrow> notna (settled_amount m)"
proof -
  from match_rows_origin [OF assms(1)]
  obtain t where "m = unattached t \<or> (\<exists>s \<in> set ss. m = attach t s)" by blast
  then show ?thesis
  proof
    assume "m = unattached t"
    then show ?thesis by (simp add: unattached_fields notna_def)
  next
    assume "\<exists>s \<in> set ss. m = attach t s"
    then obtain s where "s \<in> set ss" and "m = attach t s" by blast
    with assms(2) show ?thesis by (simp add: attach_fields)
  qed
qed

lemma reconciled_row_fields:
  "settlement_id (classified.extend c (reconciled.fields k)) = settlement_id c"
  "settled_amount (classified.extend c (reconciled.fields k)) = settled_amount c"
  "expected_settled_amount (classified.extend c (reconciled.fields k)) = expected_settled_amount c"
  "discrepancy_amount (classified.extend c (reconciled.fields k)) = discrepancy_amount c"
  "discrepancy_percent (classified.extend c (reconciled.fields k)) = discrepancy_percent c"
  by (simp_all add: classified.defs reconciled.defs)

lemma engine_rows:
  assumes "reconcile_transactions cfg ts ss = Some (df, gs)" and "r \<in> set df"
  shows "\<exists>m \<in> set (match_settlements_exact (calculate_expected_amounts cfg ts) ss). \<exists>c k.
     r = classified.extend
           (timed.extend (detect_timing_anomalies_row (calculate_discrepancies_row m))
              (classified.fields c))
           (reconciled.fields k)"
proof -
  from assms(1) have "df = map (\<lambda>row. classified.extend row
        (reconciled.fields (calculate_expected_settlement_date row))) (reconcile_stages cfg ts ss)"
    by (simp add: reconcile_transactions_def Let_def split: if_splits)
  with assms(2) obtain c' where c': "c' \<in> set (reconcile_stages cfg ts ss)"
    and r: "r = classified.extend c' (reconciled.fields (calculate_expected_settlement_date c'))"
    by auto
  from c' obtain m where m: "m \<in> set (match_settlements_exact (calculate_expected_amounts cfg ts) ss)"
    and "c' = timed.extend (detect_timing_anomalies_row (calculate_discrepancies_row m))
       (classified.fields (classify_status (detect_timing_anomalies_row (calculate_discrepancies_row m))))"
    by (auto simp: reconcile_stages_def classify_settlement_status_def
        calculate_discrepancies_map detect_timing_anomalies_map)
  with r show ?thesis by blast
qed

lemma percent_notna:
  "notna s \<Longrightarrow>
   notna (fmul (fdiv (fsub (Num e) s) (Num e)) (Num 100)) \<longleftrightarrow> \<not> (e = 0 \<and> s = Num 0)"
  by (cases s) (auto simp: notna_def)

lemma discrepancy_row_present:
  "notna (discrepancy_amount (calculate_discrepancies_row m)) \<longleftrightarrow> notna (settled_amount m)"
  "notna (discrepancy_percent (calculate_discrepancies_row m))
     \<longleftrightarrow> notna (settled_amount m) \<and> \<not> (expected_settled_amount m = 0 \<and> settled_amount m = Num 0)"
proof -
  show "notna (discrepancy_amount (calculate_discrepancies_row m)) \<longleftrightarrow> notna (settled_amount m)"
    using fsub_Num_isna [of "expected_settled_amount m" "settled_amount m"]
    by (simp add: calculate_discrepancies_row_fields notna_def isna_def)
  show "notna (discrepancy_percent (calculate_discrepancies_row m))
     \<longleftrightarrow> notna (settled_amount m) \<and> \<not> (expected_settled_amount m = 0 \<and> settled_amount m = Num 0)"
  proof (cases "notna (settled_amount m)")
    case True
    then show ?thesis
      using percent_notna [OF True, of "expected_settled_amount m"]
      by (simp add: calculate_discrepancies_row_fields)
  next
    case False
    then show ?thesis by (simp add: calculate_discrepancies_row_fields notna_def)
  qed
qed

text \<open>
  C6, amended. In every row of the engine's output (the expected settled amount of a
  row is a finite number) the discrepancy amount is present if and only if the settled
  amount of the row is present, and the discrepancy percentage is present if and only
  if, in addition, the expected and the settled amount are not both zero. When every
  line of the settlement frame has its identifier and its settled amount both present
  or both missing, and so whenever neither is ever missing, the discrepancy amount of a
  row is present if and only if its settlement identifier is.
\<close>

theorem discrepancy_present_iff_settled_amount:
  assumes "reconcile_transactions cfg transactions_df settlements_df
             = Some (reconciled_df, ghost_settlements)"
    and "r \<in> set reconciled_df"
  shows "(notna (discrepancy_amount r) \<longleftrightarrow> notna (settled_amount r))
    \<and> (notna (discrepancy_percent r) \<longleftrightarrow>
          notna (settled_amount r)
          \<and> \<not> (expected_settled_amount r = 0 \<and> settled_amount r = Num 0))
    \<and> ((\<forall>s \<in> set settlements_df.
            s_settlement_id s \<noteq> None \<longleftrightarrow> notna (s_settled_amount s))
         \<longrightarrow> (notna (discrepancy_amount r) \<longleftrightarrow> settlement_id r \<noteq> None))"
proof -
  from engine_rows [OF assms]
  obtain m c k where m: "m \<in> set (match_settlements_exact
        (calculate_expected_amounts cfg transactions_df) settlements_df)"
    and r: "r = classified.extend
           (timed.extend (detect_timing_anomalies_row (calculate_discrepancies_row m))
              (classified.fields c))
           (reconciled.fields k)"
    by blast
  have sid: "settlement_id r = settlement_id m"
    by (simp add: r reconciled_row_fields stage_settlement_id)
  have sam: "settled_amount r = settled_amount m"
    by (simp add: r reconciled_row_fields classified_row_fields
        detect_timing_anomalies_row_keeps_fields calculate_discrepancies_row_keeps_fields)
  have exp: "expected_settled_amount r = expected_settled_amount m"
    by (simp add: r reconciled_row_fields classified_row_fields
        detect_timing_anomalies_row_keeps_fields calculate_discrepancies_row_keeps_fields)
  have da: "discrepancy_amount r = discrepancy_amount (calculate_discrepancies_row m)"
    by (simp add: r reconciled_row_fields classified_row_fields
        detect_timing_anomalies_row_keeps_fields)
  have dp: "discrepancy_percent r = discrepancy_percent (calculate_discrepancies_row m)"
    by (simp add: r reconciled_row_fields classified_row_fields
        detect_timing_anomalies_row_keeps_fields)
  have att: "settlement_id m \<noteq> None \<longleftrightarrow> notna (settled_amount m)"
    if "\<forall>s \<in> set settlements_df. s_settlement_id s \<noteq> None \<longleftrightarrow> notna (s_settled_amount s)"
    using m that by (rule match_rows_complete)
  from att discrepancy_row_present [of m] show ?thesis
    unfolding sid sam exp da dp by blast
qed

text \<open>
  C6, as stated, fails in both directions: for a batch whose settlement line has no
  settled amount the engine returns a row with a settlement identifier and with missing
  discrepancy columns, and for a batch whose settlement line has no identifier it returns
  a row without a settlement identifier and with both discrepancy columns present.
\<close>

theorem discrepancy_present_iff_settled_amount_counterexample:
  "reconcile_transactions default_config [txn_card] [set_card_no_amount]
     = Some (reconciled_no_amount, [])
   \<and> map settlement_id reconciled_no_amount = [Some ''SET_002'']
   \<and> map discrepancy_amount reconciled_no_amount = [NaN]
   \<and> map discrepancy_percent reconciled_no_amount = [NaN]
   \<and> \<not> (notna (discrepancy_amount (reconciled_no_amount ! 0))
          \<longleftrightarrow> settlement_id (reconciled_no_amount ! 0) \<noteq> None)
   \<and> map settlement_id reconciled_no_id = [None]
   \<and> notna (discrepancy_amount (reconciled_no_id ! 0))
   \<and> notna (discrepancy_percent (reconciled_no_id ! 0))
   \<and> \<not> (notna (discrepancy_amount (reconciled_no_id ! 0))
          \<longleftrightarrow> settlement_id (reconciled_no_id ! 0) \<noteq> None)"
  by code_simp

theorem discrepancy_present_iff_settled_amount_witness:
  "reconcile_transactions default_config sample_transactions sample_settlements
     = Some (sample_reconciled, sample_ghosts)
   \<and> sample_reconciled ! 1 \<in> set sample_reconciled
   \<and> map s_settlement_id sample_settlements
       = [Some ''SET_001'', Some ''SET_003'', Some ''SET_999'']
   \<and> map s_settled_amount sample_settlements = [Num (968 / 10), Num 5, Num 100]
   \<and> settlement_id (sample_reconciled ! 1) = Some ''SET_003''
   \<and> settled_amount (sample_reconciled ! 1) = Num 5
   \<and> notna (discrepancy_amount (sample_reconciled ! 1))
   \<and> notna (discrepancy_percent (sample_reconciled ! 1))"
proof -
  have h: "reconcile_transactions default_config sample_transactions sample_settlements
     = Some (sample_reconciled, sample_ghosts)"
    by code_simp
  have "1 < length sample_reconciled"
    by code_simp
  then have mem: "sample_reconciled ! 1 \<in> set sample_reconciled"
    by (rule nth_mem)
  have c: "\<forall>s \<in> set sample_settlements.
      s_settlement_id s \<noteq> None \<longleftrightarrow> notna (s_settled_amount s)"
    by code_simp
  have i: "settlement_id (sample_reconciled ! 1) = Some ''SET_003''"
    by code_simp
  have a: "settled_amount (sample_reconciled ! 1) = Num 5"
    by code_simp
  have e: "expected_settled_amount (sample_reconciled ! 1) = 0"
    by code_simp
  have ids: "map s_settlement_id sample_settlements
       = [Some ''SET_001'', Some ''SET_003'', Some ''SET_999'']"
    by code_simp
  have ams: "map s_settled_amount sample_settlements = [Num (968 / 10), Num 5, Num 100]"
    by code_simp
  from discrepancy_present_iff_settled_amount [OF h mem] c i a e
  have "notna (discrepancy_amount (sample_reconciled ! 1))
      \<and> notna (discrepancy_percent (sample_reconciled ! 1))"
    by (simp add: notna_def)
  with h mem ids ams i a show ?thesis by blast
qed

section \<open>Fee model\<close>

text \<open>
  C7. For every amount, in particular every non-negative one, \<open>calculate_fee\<close> returns
  the amount times the card percentage over 100 plus the fixed card fee for
  \<open>credit_card\<close> and \<open>debit_card\<close>, the amount times the bank percentage over 100
  for \<open>bank_transfer\<close>, the amount times the voucher percentage over 100 for
  \<open>cash_voucher\<close>, and for every other payment method the card fee, with no error;
  the defaults are 2.9 percent plus 0.30, 1.5 percent and 3.5 percent.
\<close>

theorem calculate_fee_schedule:
  "calculate_fee cfg amt pm =
     (if pm = ''credit_card'' \<or> pm = ''debit_card''
        then amt * CARD_FEE_PERCENT cfg / 100 + CARD_FEE_FIXED cfg
      else if pm = ''bank_transfer'' then amt * BANK_FEE_PERCENT cfg / 100
      else if pm = ''cash_voucher'' then amt * VOUCHER_FEE_PERCENT cfg / 100
      else amt * CARD_FEE_PERCENT cfg / 100 + CARD_FEE_FIXED cfg)
   \<and> CARD_FEE_PERCENT default_config = 29 / 10
   \<and> CARD_FEE_FIXED default_config = 30 / 100
   \<and> BANK_FEE_PERCENT default_config = 15 / 10
   \<and> VOUCHER_FEE_PERCENT default_config = 35 / 10
   \<and> (pm \<notin> set [''credit_card'', ''debit_card'', ''bank_transfer'', ''cash_voucher'']
        \<longrightarrow> calculate_fee cfg amt pm = calculate_fee cfg amt ''credit_card'')"
  by (simp add: calculate_fee_def calculate_card_fee_def calculate_bank_fee_def
      calculate_voucher_fee_def default_config_def)

theorem calculate_fee_schedule_witness:
  "calculate_fee default_config 100 ''credit_card'' = 32 / 10
   \<and> calculate_fee default_config 100 ''debit_card'' = 32 / 10
   \<and> calculate_fee default_config 100 ''bank_transfer'' = 15 / 10
   \<and> calculate_fee default_config 100 ''cash_voucher'' = 35 / 10
   \<and> ''paypal'' \<notin> set [''credit_card'', ''debit_card'', ''bank_transfer'', ''cash_voucher'']
   \<and> calculate_fee default_config 100 ''paypal'' = 32 / 10"
proof -
  have c: "calculate_fee default_config 100 ''credit_card'' = 32 / 10"
    using calculate_fee_schedule [of default_config 100 "''credit_card''"] by simp
  have d: "calculate_fee default_config 100 ''debit_card'' = 32 / 10"
    using calculate_fee_schedule [of default_config 100 "''debit_card''"] by simp
  have b: "calculate_fee default_config 100 ''bank_transfer'' = 15 / 10"
    using calculate_fee_schedule [of default_config 100 "''bank_transfer''"] by simp
  have v: "calculate_fee default_config 100 ''cash_voucher'' = 35 / 10"
    using calculate_fee_schedule [of default_config 100 "''cash_voucher''"] by simp
  have n: "''paypal'' \<notin> set [''credit_card'', ''debit_card'', ''bank_transfer'', ''cash_voucher'']"
    by simp
  with calculate_fee_schedule [of default_config 100 "''paypal''"] c
  have p: "calculate_fee default_config 100 ''paypal'' = 32 / 10"
    by metis
  from c d b v n p show ?thesis by blast
qed

section \<open>Timing anomaly detector\<close>

lemma get_threshold_table: "get_threshold pm = spec_threshold_days pm"
  by (auto simp: get_threshold_def get_settlement_timing_def timing_def spec_threshold_days_def)

lemma detect_timing_anomalies_row_fields:
  "days_to_settle (detect_timing_anomalies_row row)
     = (case settlement_date row of
          Some d \<Rightarrow> Some ((d - timestamp row) div ns_per_day)
        | None \<Rightarrow> None)"
  "settlement_threshold (detect_timing_anomalies_row row) = get_threshold (payment_method row)"
  "timing_anomaly (detect_timing_anomalies_row row)
     = (case days_to_settle (detect_timing_anomalies_row row) of
          Some n \<Rightarrow> n > get_threshold (payment_method row)
        | None \<Rightarrow> False)"
  by (simp_all add: detect_timing_anomalies_row_def Let_def discrepancies.defs timed.defs)

text \<open>
  C8. For every row, \<open>timing_anomaly\<close> holds if and only if \<open>days_to_settle\<close> is
  present, which it is exactly when the row has a settlement date, and is strictly
  greater than the threshold of the row's payment method: 5 days for \<open>credit_card\<close>
  and \<open>debit_card\<close>, 10 for \<open>bank_transfer\<close>, 8 for \<open>cash_voucher\<close> and 7 for
  any other method.
\<close>

theorem timing_anomaly_iff:
  "detect_timing_anomalies reconciled_df = map detect_timing_anomalies_row reconciled_df
   \<and> (timing_anomaly (detect_timing_anomalies_row row) \<longleftrightarrow>
        (\<exists>n. days_to_settle (detect_timing_anomalies_row row) = Some n
             \<and> n > spec_threshold_days (payment_method row)))
   \<and> (days_to_settle (detect_timing_anomalies_row row) \<noteq> None
        \<longleftrightarrow> settlement_date row \<noteq> None)
   \<and> settlement_threshold (detect_timing_anomalies_row row)
        = spec_threshold_days (payment_method row)"
proof -
  have f: "detect_timing_anomalies reconciled_df = map detect_timing_anomalies_row reconciled_df"
    by (rule detect_timing_anomalies_map)
  have a: "timing_anomaly (detect_timing_anomalies_row row) \<longleftrightarrow>
        (\<exists>n. days_to_settle (detect_timing_anomalies_row row) = Some n
             \<and> n > spec_threshold_days (payment_method row))"
    by (simp add: detect_timing_anomalies_row_fields(3) get_threshold_table split: option.splits)
  have d: "days_to_settle (detect_timing_anomalies_row row) \<noteq> None
        \<longleftrightarrow> settlement_date row \<noteq> None"
    by (simp add: detect_timing_anomalies_row_fields(1) split: option.splits)
  have t: "settlement_threshold (detect_timing_anomalies_row row)
        = spec_threshold_days (payment_method row)"
    by (simp add: detect_timing_anomalies_row_fields(2) get_threshold_table)
  from f a d t show ?thesis by blast
qed

theorem timing_anomaly_iff_witness:
  "days_to_settle (detect_timing_anomalies_row (calculate_discrepancies_row row_card)) = Some 7
   \<and> spec_threshold_days (payment_method (calculate_discrepancies_row row_card)) = 5
   \<and> timing_anomaly (detect_timing_anomalies_row (calculate_discrepancies_row row_card))
   \<and> days_to_settle (detect_timing_anomalies_row (calculate_discrepancies_row row_bank_zero)) = Some 6
   \<and> spec_threshold_days (payment_method (calculate_discrepancies_row row_bank_zero)) = 10
   \<and> \<not> timing_anomaly (detect_timing_anomalies_row (calculate_discrepancies_row row_bank_zero))"
proof -
  let ?c = "calculate_discrepancies_row row_card"
  let ?b = "calculate_discrepancies_row row_bank_zero"
  have dc: "days_to_settle (detect_timing_anomalies_row ?c) = Some 7"
    by code_simp
  have tc: "spec_threshold_days (payment_method ?c) = 5"
    by code_simp
  have db: "days_to_settle (detect_timing_anomalies_row ?b) = Some 6"
    by code_simp
  have tb: "spec_threshold_days (payment_method ?b) = 10"
    by code_simp
  from timing_anomaly_iff [of "[]" ?c] dc tc
  have ac: "timing_anomaly (detect_timing_anomalies_row ?c)"
    by simp
  from timing_anomaly_iff [of "[]" ?b] db tb
  have ab: "\<not> timing_anomaly (detect_timing_anomalies_row ?b)"
    by simp
  from dc tc ac db tb ab show ?thesis by blast
qed

end
